theory Spec2Isabelle
  imports Main
begin

section \<open>JavaScript values\<close>

text \<open>
  The library \<^verbatim>\<open>src/index.js\<close> exports two classes, \<^verbatim>\<open>Data\<close> (a
  memoizing envelope around a base64, gzip-compressed JSON payload) and
  \<^verbatim>\<open>Client\<close> (registration with the stock server, the commands start, stop
  and restart, two inbound routes and the handler table). Both are modelled by state
  passing: an operation takes the object and returns what it threw (if anything), the
  observable events in the order the code produces them, and the object afterwards.

  A JSON value is what \<^verbatim>\<open>JSON.parse\<close> and \<^verbatim>\<open>bodyParser.json()\<close> produce. The
  code inspects numbers only for truthiness, so a number is carried as an integer.
\<close>

datatype json =
    JNull
  | JBool bool
  | JNum int
  | JStr string
  | JArr "json list"
  | JObj "(string \<times> json) list"

text \<open>The double negation \<^verbatim>\<open>!!v\<close> on a JSON value.\<close>

fun truthy :: "json \<Rightarrow> bool" where
  "truthy JNull = False"
| "truthy (JBool b) = b"
| "truthy (JNum n) = (n \<noteq> 0)"
| "truthy (JStr s) = (s \<noteq> [])"
| "truthy (JArr xs) = True"
| "truthy (JObj kvs) = True"

text \<open>
  An argument a caller may pass where the code expects a callback, a handler or an event
  name: \<^verbatim>\<open>undefined\<close>, a JSON value, or a function (known by an identity).
\<close>

datatype js_value = Undefined | Json json | Function nat

fun isFunction :: "js_value \<Rightarrow> bool" where
  "isFunction (Function f) = True"
| "isFunction v = False"

fun isString :: "js_value \<Rightarrow> bool" where
  "isString (Json (JStr s)) = True"
| "isString v = False"

text \<open>
  Errors as values. \<open>LibError\<close> is an error object made by a library (zlib,
  \<^verbatim>\<open>JSON.parse\<close>, the HTTP transport); the others are made by the code itself, with
  the message it gives them.
\<close>

datatype js_error =
    LibError string
  | TypeError string
  | Error string
  | AssertionError

type_synonym buffer = "char list"

section \<open>The class Data\<close>

text \<open>
  \<^verbatim>\<open>this._payload = { buff: new Buffer(json.payload, 'base64'), decoded: undefined }\<close>.
  A field is \<open>None\<close> when the property is absent or \<^verbatim>\<open>undefined\<close>.
\<close>

record payload_slot =
  buff :: "buffer option"
  decoded :: "json option"

datatype moment = InvalidMoment | Moment nat nat nat nat nat nat

record Data =
  priv_when :: moment
  priv_tickers :: "string list"
  priv_payload :: payload_slot

text \<open>
  The request body handed to the constructor, \<^verbatim>\<open>{when, tickers, payload}\<close>.
  \<open>j_when\<close> and \<open>j_payload\<close> are strings, as the JSDoc types them. \<open>j_tickers\<close>
  is \<open>Some ts\<close> when \<^verbatim>\<open>json.tickers\<close> is an array (of strings, as the JSDoc types
  it) and \<open>None\<close> when it is missing or anything else: \<^verbatim>\<open>json.tickers.map\<close> is the
  one expression of the constructor that can fail without a library failing.
\<close>

record data_json =
  j_when :: string
  j_tickers :: "string list option"
  j_payload :: string

text \<open>
  The constructor (lines 33 to 42). The three library calls are parameters:
  \<open>moment_of\<close> is \<^verbatim>\<open>moment(string)\<close>, which returns a moment object for every
  string (an invalid one when the string does not parse); \<open>upperCase\<close> is lodash's
  \<^verbatim>\<open>_.upperCase\<close>; \<open>base64\<close> is \<^verbatim>\<open>new Buffer(string, 'base64')\<close>, which
  returns a buffer for every string. \<^verbatim>\<open>json.tickers.map\<close> throws a TypeError
  unless \<^verbatim>\<open>json.tickers\<close> is an array; the message belongs to the engine and
  is another one when the tickers are missing, so the text carried here only names the
  expression that failed. The constructor has no \<^verbatim>\<open>throw\<close> of its own and checks
  none of its inputs. Bodies whose \<^verbatim>\<open>when\<close> or \<^verbatim>\<open>payload\<close> is not a string are
  outside this model: what \<^verbatim>\<open>new Buffer\<close> does with them (it throws for a missing
  payload) is not described by it.
\<close>

definition Data_new ::
  "(string \<Rightarrow> moment) \<Rightarrow> (string \<Rightarrow> string) \<Rightarrow> (string \<Rightarrow> buffer) \<Rightarrow> data_json
    \<Rightarrow> js_error + Data" where
  "Data_new moment_of upperCase base64 j =
     (let w = moment_of (j_when j) in
      case j_tickers j of
        None \<Rightarrow> Inl (TypeError ''json.tickers.map is not a function'')
      | Some ts \<Rightarrow>
          Inr \<lparr> priv_when = w,
                priv_tickers = map upperCase ts,
                priv_payload = \<lparr> buff = Some (base64 (j_payload j)), decoded = None \<rparr> \<rparr>)"

definition Data_when :: "Data \<Rightarrow> moment" where
  "Data_when d = priv_when d"

definition Data_tickers :: "Data \<Rightarrow> string list" where
  "Data_tickers d = priv_tickers d"

text \<open>
  What an operation leaves behind besides the object: the calls it made that an
  observer can see. \<open>Gunzip b\<close> is a call of \<^verbatim>\<open>zlib.gunzip\<close> on \<open>b\<close>;
  \<open>Callback f err v\<close> is the call \<^verbatim>\<open>next(err, v)\<close> of the function \<open>f\<close>
  (\<open>None\<close> for \<^verbatim>\<open>null\<close> or a missing argument); \<open>Request\<close> is a call of
  \<^verbatim>\<open>request.put\<close>, \<^verbatim>\<open>request.del\<close> or \<^verbatim>\<open>request.get\<close> with its URL, JSON
  body and timeout; \<open>Respond\<close> is \<^verbatim>\<open>resp.json(body)\<close> with the status it is
  sent with; the last three are calls of the handlers \<^verbatim>\<open>data\<close>, \<^verbatim>\<open>status\<close>
  and \<^verbatim>\<open>error\<close> (the handler's identity, its first argument, and \<^verbatim>\<open>req.ip\<close>).
\<close>

datatype http_method = GET | PUT | DELETE

datatype event =
    Gunzip buffer
  | Callback nat "js_error option" "json option"
  | Request http_method string "json option" "nat option"
  | Respond nat json
  | DataHandler nat Data string
  | StatusHandler nat "json option" string
  | ErrorHandler nat js_error

text \<open>
  \<^verbatim>\<open>if (_.isFunction(next)) { next(err); } else { throw err; }\<close>: what is thrown, and
  the events.
\<close>

fun next_or_throw :: "js_value \<Rightarrow> js_error \<Rightarrow> js_error option \<times> event list" where
  "next_or_throw (Function f) err = (None, [Callback f (Some err) None])"
| "next_or_throw v err = (Some err, [])"

text \<open>\<^verbatim>\<open>if (_.isFunction(next)) { next(null, value); }\<close>\<close>

fun next_value :: "js_value \<Rightarrow> json \<Rightarrow> event list" where
  "next_value (Function f) v = [Callback f None (Some v)]"
| "next_value n v = []"

text \<open>
  An envelope together with the decompressions \<^verbatim>\<open>zlib.gunzip\<close> has been asked for
  and has not yet answered: each holds the buffer it was given and the \<^verbatim>\<open>next\<close>
  its callback closes over.
\<close>

record data_world =
  self :: Data
  jobs :: "(buffer \<times> js_value) list"

text \<open>
  \<^verbatim>\<open>payload(next)\<close>, the part that runs in the caller's turn (lines 53 to 85):
  with a buffer it only starts \<^verbatim>\<open>zlib.gunzip\<close>; otherwise it answers from the
  decoded value if that is truthy, and fails with a TypeError if not.
\<close>

definition Data_payload :: "js_value \<Rightarrow> data_world \<Rightarrow> js_error option \<times> event list \<times> data_world" where
  "Data_payload next w =
     (let p = priv_payload (self w) in
      case buff p of
        Some b \<Rightarrow> (None, [Gunzip b], w\<lparr> jobs := jobs w @ [(b, next)] \<rparr>)
      | None \<Rightarrow>
          (if (case decoded p of Some v \<Rightarrow> truthy v | None \<Rightarrow> False)
           then (None, next_value next (the (decoded p)), w)
           else (let (thrown, evs) =
                       next_or_throw next (TypeError ''No payload buffer or decoded value?'')
                 in (thrown, evs, w))))"

text \<open>\<^verbatim>\<open>buff.toString('ascii')\<close>: every byte with its high bit cleared.\<close>

definition toString_ascii :: "buffer \<Rightarrow> string" where
  "toString_ascii b = map (\<lambda>c. char_of (of_char c mod (128::nat))) b"

text \<open>
  The callback given to \<^verbatim>\<open>zlib.gunzip\<close> (lines 55 to 72), run when zlib answers
  with \<open>res\<close>: an error, or the decompressed bytes. \<open>JSON_parse\<close> is
  \<^verbatim>\<open>JSON.parse\<close>, which returns a value or throws; its exception leaves the callback
  at line 64, before the assignment and before \<^verbatim>\<open>delete this._payload.buff\<close>.
\<close>

definition gunzip_callback ::
  "(string \<Rightarrow> js_error + json) \<Rightarrow> js_error + buffer \<Rightarrow> js_value \<Rightarrow> Data
    \<Rightarrow> js_error option \<times> event list \<times> Data" where
  "gunzip_callback JSON_parse res next d =
     (case res of
        Inl err \<Rightarrow> (let (thrown, evs) = next_or_throw next err in (thrown, evs, d))
      | Inr out \<Rightarrow>
          (case JSON_parse (toString_ascii out) of
             Inl e \<Rightarrow> (Some e, [], d)
           | Inr v \<Rightarrow>
               (None, next_value next v,
                d\<lparr> priv_payload := \<lparr> buff = None, decoded = Some v \<rparr> \<rparr>)))"

text \<open>
  The event loop delivers the answer of the \<open>k\<close>-th outstanding decompression
  (\<open>gunzip\<close> is what zlib computes from a buffer). Nothing happens when there is no
  such decompression.
\<close>

definition deliver ::
  "(buffer \<Rightarrow> js_error + buffer) \<Rightarrow> (string \<Rightarrow> js_error + json) \<Rightarrow> nat \<Rightarrow> data_world
    \<Rightarrow> js_error option \<times> event list \<times> data_world" where
  "deliver gunzip JSON_parse k w =
     (if k < length (jobs w)
      then (let (b, next) = jobs w ! k;
                (thrown, evs, d) = gunzip_callback JSON_parse (gunzip b) next (self w)
            in (thrown, evs, \<lparr> self = d, jobs = take k (jobs w) @ drop (Suc k) (jobs w) \<rparr>))
      else (None, [], w))"

text \<open>
  What can happen to an envelope between two turns of the event loop: a caller calls
  \<^verbatim>\<open>payload\<close>, or zlib answers.
\<close>

datatype action = CallPayload js_value | Deliver nat

fun step ::
  "(buffer \<Rightarrow> js_error + buffer) \<Rightarrow> (string \<Rightarrow> js_error + json) \<Rightarrow> action \<Rightarrow> data_world
    \<Rightarrow> js_error option \<times> event list \<times> data_world" where
  "step gunzip JSON_parse (CallPayload next) w = Data_payload next w"
| "step gunzip JSON_parse (Deliver k) w = deliver gunzip JSON_parse k w"

text \<open>
  A sequence of actions, each in a turn of its own; an exception ends its turn only.
  The result is what each turn threw and did, and the envelope at the end.
\<close>

fun run ::
  "(buffer \<Rightarrow> js_error + buffer) \<Rightarrow> (string \<Rightarrow> js_error + json) \<Rightarrow> action list \<Rightarrow> data_world
    \<Rightarrow> (js_error option \<times> event list) list \<times> data_world" where
  "run gunzip JSON_parse [] w = ([], w)"
| "run gunzip JSON_parse (a # as) w =
     (let (thrown, evs, w') = step gunzip JSON_parse a w;
          (rest, w'') = run gunzip JSON_parse as w'
      in ((thrown, evs) # rest, w''))"

definition fresh :: "Data \<Rightarrow> data_world" where
  "fresh d = \<lparr> self = d, jobs = [] \<rparr>"

text \<open>The two payload states, read off the fields.\<close>

definition compressed :: "Data \<Rightarrow> bool" where
  "compressed d = (buff (priv_payload d) \<noteq> None)"

definition is_decoded :: "Data \<Rightarrow> bool" where
  "is_decoded d = (decoded (priv_payload d) \<noteq> None)"

text \<open>The envelopes a sequence of actions passes through, the first one included.\<close>

fun worlds ::
  "(buffer \<Rightarrow> js_error + buffer) \<Rightarrow> (string \<Rightarrow> js_error + json) \<Rightarrow> action list \<Rightarrow> data_world
    \<Rightarrow> data_world list" where
  "worlds gunzip JSON_parse [] w = [w]"
| "worlds gunzip JSON_parse (a # as) w =
     w # worlds gunzip JSON_parse as (snd (snd (step gunzip JSON_parse a w)))"

definition one_state :: "Data \<Rightarrow> bool" where
  "one_state d = (compressed d \<noteq> is_decoded d)"

text \<open>
  An action that is a successful decode: zlib answers an outstanding decompression
  with bytes, and \<^verbatim>\<open>JSON.parse\<close> accepts them.
\<close>

fun successful_decode ::
  "(buffer \<Rightarrow> js_error + buffer) \<Rightarrow> (string \<Rightarrow> js_error + json) \<Rightarrow> action \<Rightarrow> data_world
    \<Rightarrow> bool" where
  "successful_decode gunzip JSON_parse (CallPayload next) w = False"
| "successful_decode gunzip JSON_parse (Deliver k) w =
     (k < length (jobs w) \<and>
      (case gunzip (fst (jobs w ! k)) of
         Inl err \<Rightarrow> False
       | Inr out \<Rightarrow> (case JSON_parse (toString_ascii out) of Inl e \<Rightarrow> False | Inr v \<Rightarrow> True)))"

section \<open>Library functions the claims depend on\<close>

subsection \<open>lodash: upperCase\<close>

text \<open>
  \<^verbatim>\<open>_.upperCase\<close> of lodash 4 is not \<^verbatim>\<open>String.prototype.toUpperCase\<close>: it removes
  apostrophes, splits the string into words, upper-cases each word and joins the words
  with one space (its documentation: \<^verbatim>\<open>_.upperCase('--foo-bar')\<close> is
  \<^verbatim>\<open>'FOO BAR'\<close>, \<^verbatim>\<open>_.upperCase('fooBar')\<close> is \<^verbatim>\<open>'FOO BAR'\<close>). The model below
  covers ASCII strings. There every character that is not a letter or a digit
  separates words, and inside a run of letters and digits a word ends between a lower
  case and an upper case letter, before the last letter of a run of capitals that a
  lower case letter follows, and between a letter and a digit. (The ordinal words of
  later releases, such as \<^verbatim>\<open>1st\<close>, are not modelled; bytes above 127 are taken as
  separators.)
\<close>

definition is_lower :: "char \<Rightarrow> bool" where
  "is_lower c = (97 \<le> (of_char c :: nat) \<and> (of_char c :: nat) \<le> 122)"

definition is_upper :: "char \<Rightarrow> bool" where
  "is_upper c = (65 \<le> (of_char c :: nat) \<and> (of_char c :: nat) \<le> 90)"

definition is_digit :: "char \<Rightarrow> bool" where
  "is_digit c = (48 \<le> (of_char c :: nat) \<and> (of_char c :: nat) \<le> 57)"

definition is_letter :: "char \<Rightarrow> bool" where
  "is_letter c = (is_lower c \<or> is_upper c)"

definition toUpperCase_char :: "char \<Rightarrow> char" where
  "toUpperCase_char c = (if is_lower c then char_of (of_char c - (32::nat)) else c)"

text \<open>\<^verbatim>\<open>String.prototype.toUpperCase\<close> on an ASCII string.\<close>

definition toUpperCase :: "string \<Rightarrow> string" where
  "toUpperCase s = map toUpperCase_char s"

text \<open>
  Whether a word ends between \<open>p\<close> and \<open>c\<close>, two adjacent letters or digits, when
  \<open>n\<close> is the character after \<open>c\<close>.
\<close>

definition word_break :: "char \<Rightarrow> char \<Rightarrow> char option \<Rightarrow> bool" where
  "word_break p c n =
     ((is_lower p \<and> is_upper c)
      \<or> (is_upper p \<and> is_upper c \<and> (case n of Some x \<Rightarrow> is_lower x | None \<Rightarrow> False))
      \<or> (is_letter p \<and> is_digit c)
      \<or> (is_digit p \<and> is_letter c))"

definition flush :: "string \<Rightarrow> string list" where
  "flush cur = (if cur = [] then [] else [cur])"

text \<open>\<^verbatim>\<open>_.words\<close>: \<open>cur\<close> is the word being read.\<close>

fun words_from :: "string \<Rightarrow> string \<Rightarrow> string list" where
  "words_from cur [] = flush cur"
| "words_from cur (c # cs) =
     (if \<not> (is_letter c \<or> is_digit c) then flush cur @ words_from [] cs
      else if cur \<noteq> [] \<and> word_break (last cur) c (case cs of [] \<Rightarrow> None | n # ns \<Rightarrow> Some n)
      then cur # words_from [c] cs
      else words_from (cur @ [c]) cs)"

fun join_words :: "string list \<Rightarrow> string" where
  "join_words [] = []"
| "join_words [w] = w"
| "join_words (w # ws) = w @ '' '' @ join_words ws"

definition lodash_upperCase :: "string \<Rightarrow> string" where
  "lodash_upperCase s =
     join_words (map toUpperCase (words_from [] (filter (\<lambda>c. c \<noteq> CHR 0x27) s)))"

subsection \<open>moment: format\<close>

text \<open>
  A natural number as JavaScript writes it in a string (\<^verbatim>\<open>'' + n\<close>), and moment's
  \<^verbatim>\<open>zeroFill(number, targetLength)\<close>.
\<close>

definition digit_char :: "nat \<Rightarrow> char" where
  "digit_char d = char_of (d + 48)"

function number_toString :: "nat \<Rightarrow> string" where
  "number_toString n =
     (if 10 \<le> n then number_toString (n div 10) @ [digit_char (n mod 10)]
      else [digit_char n])"
  by pat_completeness auto
termination
  by (relation "measure id") auto

definition zeroFill :: "nat \<Rightarrow> nat \<Rightarrow> string" where
  "zeroFill n targetLength =
     replicate (targetLength - length (number_toString n)) (CHR ''0'') @ number_toString n"

text \<open>
  \<^verbatim>\<open>when.format('YYYY-MM-DD[T]hh:mm:ss')\<close> on a moment of year, month (1 to 12), day,
  hour (0 to 23), minute and second. moment's \<^verbatim>\<open>hh\<close> is the hour of the twelve
  hour clock (\<^verbatim>\<open>hours % 12 || 12\<close>), two digits; the twenty-four hour token is
  \<^verbatim>\<open>HH\<close>. An invalid moment formats as \<^verbatim>\<open>Invalid date\<close>.
\<close>

definition hour12 :: "nat \<Rightarrow> nat" where
  "hour12 h = (if h mod 12 = 0 then 12 else h mod 12)"

fun moment_format :: "moment \<Rightarrow> string" where
  "moment_format InvalidMoment = ''Invalid date''"
| "moment_format (Moment y mo d h mi s) =
     zeroFill y 4 @ ''-'' @ zeroFill mo 2 @ ''-'' @ zeroFill d 2 @ ''T''
       @ zeroFill (hour12 h) 2 @ '':'' @ zeroFill mi 2 @ '':'' @ zeroFill s 2"

subsection \<open>Node: querystring.stringify and url.format\<close>

text \<open>
  \<^verbatim>\<open>querystring.escape\<close> percent-encodes every byte but letters, digits and
  \<^verbatim>\<open>- _ . ! ~ * ' ( )\<close>.
\<close>

definition unreserved :: "char \<Rightarrow> bool" where
  "unreserved c = (is_letter c \<or> is_digit c \<or> c \<in> set ''-_.!~*()'' \<or> c = CHR 0x27)"

definition hex_digit :: "nat \<Rightarrow> char" where
  "hex_digit n = (if n < 10 then char_of (48 + n) else char_of (55 + n))"

definition qs_escape :: "string \<Rightarrow> string" where
  "qs_escape s =
     concat (map (\<lambda>c. if unreserved c then [c]
                       else [CHR ''%'', hex_digit ((of_char c :: nat) div 16),
                             hex_digit ((of_char c :: nat) mod 16)]) s)"

text \<open>
  \<^verbatim>\<open>querystring.stringify(obj)\<close> on an object whose values are strings or
  \<^verbatim>\<open>undefined\<close> (\<open>None\<close>): every own key gives \<^verbatim>\<open>key=value\<close>, and a value that
  is not a string, number or boolean is written as the empty string. The key is not
  left out.
\<close>

fun join_amp :: "string list \<Rightarrow> string" where
  "join_amp [] = []"
| "join_amp [f] = f"
| "join_amp (f # fs) = f @ ''&'' @ join_amp fs"

definition querystring_stringify :: "(string \<times> string option) list \<Rightarrow> string" where
  "querystring_stringify obj =
     join_amp (map (\<lambda>(k, v). qs_escape k @ ''='' @
                       qs_escape (case v of Some x \<Rightarrow> x | None \<Rightarrow> [])) obj)"

text \<open>
  The object \<^verbatim>\<open>url.parse\<close> made of the service URL, as far as \<^verbatim>\<open>url.format\<close>
  reads it: \<open>origin\<close> is what is written before the path (protocol, slashes,
  credentials and host), \<open>search\<close> and \<open>hash\<close> are empty when the service URL has
  none, \<open>query\<close> is \<open>None\<close> when it is \<^verbatim>\<open>null\<close> or \<^verbatim>\<open>undefined\<close>.
\<close>

record Url =
  origin :: string
  pathname :: string
  query :: "(string \<times> string option) list option"
  search :: string
  hash :: string

text \<open>
  \<^verbatim>\<open>url.format\<close>: the path with \<^verbatim>\<open>#\<close> and \<^verbatim>\<open>?\<close> escaped and a leading slash,
  then \<^verbatim>\<open>this.search\<close> if there is one and the stringified query after a question
  mark otherwise, then the hash.
\<close>

definition escape_pathname :: "string \<Rightarrow> string" where
  "escape_pathname p =
     concat (map (\<lambda>c. if c = CHR ''#'' then ''%23'' else if c = CHR ''?'' then ''%3F'' else [c]) p)"

definition url_format :: "Url \<Rightarrow> string" where
  "url_format u =
     (let q = (case query u of Some obj \<Rightarrow> querystring_stringify obj | None \<Rightarrow> []);
          s = (if search u \<noteq> [] then search u else if q \<noteq> [] then ''?'' @ q else []);
          p = escape_pathname (pathname u);
          p' = (if p \<noteq> [] \<and> hd p \<noteq> CHR ''/'' then ''/'' @ p else p);
          s' = (if s \<noteq> [] \<and> hd s \<noteq> CHR ''?'' then ''?'' @ s else s);
          h = (if hash u \<noteq> [] \<and> hd (hash u) \<noteq> CHR ''#'' then ''#'' @ hash u else hash u)
      in origin u @ p' @ s' @ h)"

section \<open>The class Client\<close>

text \<open>
  The fields the methods read: the parsed service URL, the local address (an object,
  given by its properties), the secret (\<open>None\<close> when the configuration has none),
  the timeout, and the three handlers (functions, known by their identities).
\<close>

record handlers =
  h_error :: nat
  h_status :: nat
  h_data :: nat

record Client =
  servUrl :: Url
  local_addr :: "(string \<times> json) list"
  secret :: "string option"
  timeout :: "nat option"
  priv_handlers :: handlers

text \<open>
  \<^verbatim>\<open>_remoteUrl(path, query)\<close> (lines 218 to 223): \<^verbatim>\<open>_.extend\<close> writes the path
  and the query into \<^verbatim>\<open>this._servUrl\<close> itself, and \<^verbatim>\<open>url.format\<close> renders it.
\<close>

definition remoteUrl ::
  "string \<Rightarrow> (string \<times> string option) list option \<Rightarrow> Client \<Rightarrow> string \<times> Client" where
  "remoteUrl path q c =
     (let u = (servUrl c)\<lparr> pathname := path, query := q \<rparr>
      in (url_format u, c\<lparr> servUrl := u \<rparr>))"

text \<open>What the transport hands to a request's callback: an error, or a response.\<close>

datatype 'b http_result = TransportError js_error | Response nat 'b

text \<open>
  The end of every request callback:
  \<^verbatim>\<open>if (_.isFunction(next)) { next(err); } else if (!!err) { throw err; }\<close>.
\<close>

fun report :: "js_value \<Rightarrow> js_error option \<Rightarrow> js_error option \<times> event list" where
  "report (Function f) err = (None, [Callback f err None])"
| "report v err = (err, [])"

text \<open>
  \<^verbatim>\<open>connect(next)\<close> (lines 229 to 252): the call of \<^verbatim>\<open>request.put\<close>, and its
  callback. \<^verbatim>\<open>this._local\<close> is an object, so \<^verbatim>\<open>!!this._local\<close> holds.
  \<open>inspect\<close> is \<^verbatim>\<open>util.inspect\<close>.
\<close>

definition register_body :: "Client \<Rightarrow> json" where
  "register_body c = JObj [(''href'', JObj (local_addr c)), (''verb'', JStr ''POST'')]"

definition Client_connect :: "Client \<Rightarrow> event list \<times> Client" where
  "Client_connect c =
     (let (uri, c') = remoteUrl ''/register'' None c
      in ([Request PUT uri (Some (register_body c')) (timeout c')], c'))"

definition connect_callback ::
  "(json \<Rightarrow> string) \<Rightarrow> string \<Rightarrow> json http_result \<Rightarrow> js_value
    \<Rightarrow> js_error option \<times> event list" where
  "connect_callback inspect uri res next =
     (let err = (case res of
                   TransportError e \<Rightarrow> Some e
                 | Response statusCode body \<Rightarrow>
                     (if statusCode \<noteq> 200
                      then Some (Error (''Bad status code: '' @ number_toString statusCode
                                  @ [CHR 0x0A] @ ''Error: '' @ uri @ '', '' @ inspect body))
                      else None))
      in report next err)"

text \<open>
  \<^verbatim>\<open>disconnect(next)\<close> (lines 258 to 272). Its callback takes the transport's
  error only and never looks at the response.
\<close>

definition Client_disconnect :: "Client \<Rightarrow> event list \<times> Client" where
  "Client_disconnect c =
     (let (uri, c') = remoteUrl ''/register'' None c
      in ([Request DELETE uri (Some (register_body c')) (timeout c')], c'))"

definition disconnect_callback ::
  "json http_result \<Rightarrow> js_value \<Rightarrow> js_error option \<times> event list" where
  "disconnect_callback res next =
     (let err = (case res of TransportError e \<Rightarrow> Some e | Response statusCode body \<Rightarrow> None)
      in report next err)"

text \<open>
  The opening of \<^verbatim>\<open>start\<close>, \<^verbatim>\<open>stop\<close> and \<^verbatim>\<open>restart\<close>:
  \<^verbatim>\<open>if (!this._secret) { let err = ...; if (_.isFunction(next)) { next(err); } else { throw err; } }\<close>.
  The secret is falsy when it is missing or the empty string. There is no
  \<^verbatim>\<open>return\<close> in the block: after \<^verbatim>\<open>next(err)\<close> the method goes on.
\<close>

definition secret_check :: "string option \<Rightarrow> js_value \<Rightarrow> js_error option \<times> event list" where
  "secret_check s next =
     (if s = None \<or> s = Some []
      then next_or_throw next (Error ''Secret is not specified, server requests are unavailable.'')
      else (None, []))"

text \<open>
  \<^verbatim>\<open>start(next)\<close> (lines 278 to 306), \<^verbatim>\<open>stop(next)\<close> (lines 312 to 340) and
  \<^verbatim>\<open>restart(next, when)\<close> (lines 347 to 379), up to the call of \<^verbatim>\<open>request.get\<close>.
  \<open>when\<close> is \<open>Some m\<close> when \<^verbatim>\<open>moment.isMoment(when)\<close> holds.
\<close>

definition Client_start :: "js_value \<Rightarrow> Client \<Rightarrow> js_error option \<times> event list \<times> Client" where
  "Client_start next c =
     (case secret_check (secret c) next of
        (Some err, evs) \<Rightarrow> (Some err, evs, c)
      | (None, evs) \<Rightarrow>
          (let (uri, c') = remoteUrl ''/serv/start'' (Some [(''token'', secret c)]) c
           in (None, evs @ [Request GET uri None (timeout c')], c')))"

definition Client_stop :: "js_value \<Rightarrow> Client \<Rightarrow> js_error option \<times> event list \<times> Client" where
  "Client_stop next c =
     (case secret_check (secret c) next of
        (Some err, evs) \<Rightarrow> (Some err, evs, c)
      | (None, evs) \<Rightarrow>
          (let (uri, c') = remoteUrl ''/serv/stop'' (Some [(''token'', secret c)]) c
           in (None, evs @ [Request GET uri None (timeout c')], c')))"

definition Client_restart ::
  "js_value \<Rightarrow> moment option \<Rightarrow> Client \<Rightarrow> js_error option \<times> event list \<times> Client" where
  "Client_restart next when c =
     (case secret_check (secret c) next of
        (Some err, evs) \<Rightarrow> (Some err, evs, c)
      | (None, evs) \<Rightarrow>
          (let (uri, c') =
                 remoteUrl ''/serv/reset''
                   (Some [(''token'', secret c),
                          (''date'', (case when of Some m \<Rightarrow> Some (moment_format m)
                                      | None \<Rightarrow> None))]) c
           in (None, evs @ [Request GET uri None (timeout c')], c')))"

text \<open>The callback the three commands give to \<^verbatim>\<open>request.get\<close>.\<close>

definition command_callback ::
  "string http_result \<Rightarrow> js_value \<Rightarrow> js_error option \<times> event list" where
  "command_callback res next =
     (let err = (case res of
                   TransportError e \<Rightarrow> Some e
                 | Response statusCode body \<Rightarrow>
                     (if statusCode \<noteq> 200
                      then Some (Error (''Bad status code: '' @ number_toString statusCode
                                  @ [CHR 0x0A] @ ''Error: '' @ body))
                      else None))
      in report next err)"

text \<open>
  The inbound routes (lines 194 to 209). A request is its \<^verbatim>\<open>ip\<close> and its parsed
  body. \<open>behave h\<close> is what the handler \<open>h\<close> throws when it is called (\<open>None\<close>
  when it returns). \<^verbatim>\<open>resp.json\<close> sends the body with status 200.
\<close>

record 'b request =
  ip :: string
  body :: 'b

definition success_body :: json where
  "success_body = JObj [(''success'', JBool True)]"

definition post_data ::
  "(string \<Rightarrow> moment) \<Rightarrow> (string \<Rightarrow> string) \<Rightarrow> (string \<Rightarrow> buffer) \<Rightarrow> (nat \<Rightarrow> js_error option)
    \<Rightarrow> Client \<Rightarrow> data_json request \<Rightarrow> js_error option \<times> event list" where
  "post_data moment_of upperCase base64 behave c req =
     (let sent = [Respond 200 success_body] in
      case Data_new moment_of upperCase base64 (body req) of
        Inl err \<Rightarrow> (Some err, sent)
      | Inr d \<Rightarrow>
          (behave (h_data (priv_handlers c)),
           sent @ [DataHandler (h_data (priv_handlers c)) d (ip req)]))"

definition post_signal ::
  "(nat \<Rightarrow> js_error option) \<Rightarrow> Client \<Rightarrow> json option request \<Rightarrow> js_error option \<times> event list" where
  "post_signal behave c req =
     (let sent = [Respond 200 success_body] in
      (behave (h_status (priv_handlers c)),
       sent @ [StatusHandler (h_status (priv_handlers c)) (body req) (ip req)]))"

text \<open>
  \<^verbatim>\<open>on(event, handler)\<close> (lines 387 to 407): the assertion first, then the switch
  on the event name.
\<close>

fun Client_on ::
  "(nat \<Rightarrow> js_error option) \<Rightarrow> js_value \<Rightarrow> js_value \<Rightarrow> Client
    \<Rightarrow> js_error option \<times> event list \<times> Client" where
  "Client_on behave (Json (JStr event)) (Function handler) c =
     (if event = ''error''
      then (None, [], c\<lparr> priv_handlers := (priv_handlers c)\<lparr> h_error := handler \<rparr> \<rparr>)
      else if event = ''status''
      then (None, [], c\<lparr> priv_handlers := (priv_handlers c)\<lparr> h_status := handler \<rparr> \<rparr>)
      else if event = ''data''
      then (None, [], c\<lparr> priv_handlers := (priv_handlers c)\<lparr> h_data := handler \<rparr> \<rparr>)
      else (behave (h_error (priv_handlers c)),
            [ErrorHandler (h_error (priv_handlers c)) (Error (''Unknown event: '' @ event))], c))"
| "Client_on behave event handler c = (Some AssertionError, [], c)"

text \<open>Which events are responses, requests, and calls of a handler.\<close>

fun is_respond :: "event \<Rightarrow> bool" where
  "is_respond (Respond status b) = True"
| "is_respond e = False"

fun is_request :: "event \<Rightarrow> bool" where
  "is_request (Request m uri b t) = True"
| "is_request e = False"

fun is_handler_call :: "event \<Rightarrow> bool" where
  "is_handler_call (DataHandler h d a) = True"
| "is_handler_call (StatusHandler h s a) = True"
| "is_handler_call (ErrorHandler h e) = True"
| "is_handler_call e = False"

section \<open>The payload states of an envelope\<close>

lemma gunzip_callback_one_state:
  "one_state d \<Longrightarrow> one_state (snd (snd (gunzip_callback p res nxt d)))"
  by (auto simp: gunzip_callback_def one_state_def compressed_def is_decoded_def
      split: sum.splits prod.splits)

lemma gunzip_callback_decoded:
  "is_decoded d \<Longrightarrow> is_decoded (snd (snd (gunzip_callback p res nxt d)))"
  by (auto simp: gunzip_callback_def  is_decoded_def
      split: sum.splits prod.splits)

lemma step_self_CallPayload:
  "self (snd (snd (step g p (CallPayload nxt) w))) = self w"
  by (auto simp: Data_payload_def Let_def split: option.splits prod.splits)

lemma step_self_Deliver:
  "self (snd (snd (step g p (Deliver k) w))) =
     (if k < length (jobs w)
      then snd (snd (gunzip_callback p (g (fst (jobs w ! k))) (snd (jobs w ! k)) (self w)))
      else self w)"
  by (auto simp: deliver_def Let_def split: prod.splits)

lemma step_one_state:
  assumes "one_state (self w)"
  shows "one_state (self (snd (snd (step g p a w))))"
proof (cases a)
  case (CallPayload nxt)
  with assms show ?thesis by (simp only: step_self_CallPayload)
next
  case (Deliver k)
  with assms show ?thesis
    by (simp add: step_self_Deliver gunzip_callback_one_state del: step.simps)
qed

lemma step_decoded:
  assumes "is_decoded (self w)"
  shows "is_decoded (self (snd (snd (step g p a w))))"
proof (cases a)
  case (CallPayload nxt)
  with assms show ?thesis by (simp only: step_self_CallPayload)
next
  case (Deliver k)
  with assms show ?thesis
    by (simp add: step_self_Deliver gunzip_callback_decoded del: step.simps)
qed

lemma step_decoded_iff:
  "is_decoded (self (snd (snd (step g p a w)))) =
     (is_decoded (self w) \<or> successful_decode g p a w)"
proof (cases a)
  case (CallPayload nxt)
  then show ?thesis by (simp only: step_self_CallPayload successful_decode.simps simp_thms)
next
  case (Deliver k)
  then show ?thesis
    by (auto simp: step_self_Deliver gunzip_callback_def is_decoded_def
        simp del: step.simps split: sum.splits prod.splits)
qed

lemma worlds_one_state:
  "one_state (self w) \<Longrightarrow> list_all (\<lambda>w'. one_state (self w')) (worlds g p as w)"
  by (induction as arbitrary: w) (auto simp: step_one_state simp del: step.simps)

lemma worlds_decoded:
  "is_decoded (self w) \<Longrightarrow> list_all (\<lambda>w'. is_decoded (self w')) (worlds g p as w)"
  by (induction as arbitrary: w) (auto simp: step_decoded simp del: step.simps)

lemma worlds_sorted:
  "sorted (map (\<lambda>w'. is_decoded (self w')) (worlds g p as w))"
proof (induction as arbitrary: w)
  case Nil
  then show ?case by simp
next
  case (Cons a as)
  show ?case
  proof (cases "is_decoded (self w)")
    case True
    then have "list_all (\<lambda>w'. is_decoded (self w')) (worlds g p (a # as) w)"
      by (rule worlds_decoded)
    then show ?thesis using Cons by (auto simp: list_all_iff simp del: step.simps)
  next
    case False
    then show ?thesis using Cons by (auto simp del: step.simps)
  qed
qed

lemma Data_new_compressed:
  "Data_new m u b j = Inr d \<Longrightarrow> compressed d \<and> \<not> is_decoded d"
  by (auto simp: Data_new_def compressed_def is_decoded_def Let_def split: option.splits)

text \<open>
  Claim C3. An envelope always holds exactly one of its two payload states, the raw
  buffer (Compressed) or the parsed JSON value (Decoded): the constructor gives it the
  buffer and no decoded value; in every envelope that any sequence of calls of
  \<^verbatim>\<open>payload\<close> and answers of zlib passes through, exactly one of the two fields
  is set; along such a sequence the envelope is first not decoded and then decoded, so
  it changes to Decoded at most once and never back; and a step leaves it decoded
  exactly when it was decoded before or the step is a successful decode. A field counts
  as present when it holds a value, whatever the value.
\<close>

theorem payload_state_invariant:
  assumes "Data_new moment_of upperCase base64 j = Inr d"
  shows "compressed d \<and> \<not> is_decoded d
    \<and> list_all (\<lambda>w. one_state (self w)) (worlds gunzip JSON_parse as (fresh d))
    \<and> sorted (map (\<lambda>w. is_decoded (self w)) (worlds gunzip JSON_parse as (fresh d)))
    \<and> is_decoded (self (snd (snd (step gunzip JSON_parse a w))))
        = (is_decoded (self w) \<or> successful_decode gunzip JSON_parse a w)"
proof -
  from assms have start: "compressed d \<and> \<not> is_decoded d"
    by (rule Data_new_compressed)
  then have "one_state (self (fresh d))"
    by (simp add: one_state_def fresh_def)
  then have "list_all (\<lambda>w. one_state (self w)) (worlds gunzip JSON_parse as (fresh d))"
    by (rule worlds_one_state)
  with start show ?thesis
    by (simp only: worlds_sorted step_decoded_iff simp_thms)
qed

theorem payload_state_invariant_witness:
  "Data_new (\<lambda>s. InvalidMoment) toUpperCase (\<lambda>s. s)
      \<lparr> j_when = ''today'', j_tickers = Some [''aapl''], j_payload = ''abc'' \<rparr>
     = Inr \<lparr> priv_when = InvalidMoment, priv_tickers = [''AAPL''],
             priv_payload = \<lparr> buff = Some ''abc'', decoded = None \<rparr> \<rparr>
   \<and> map (\<lambda>w. (compressed (self w), is_decoded (self w)))
       (worlds (\<lambda>b. Inr b) (\<lambda>s. Inr (JArr []))
          [CallPayload (Function 1), Deliver 0, CallPayload (Function 2)]
          (fresh \<lparr> priv_when = InvalidMoment, priv_tickers = [''AAPL''],
                   priv_payload = \<lparr> buff = Some ''abc'', decoded = None \<rparr> \<rparr>))
     = [(True, False), (True, False), (False, True), (False, True)]
   \<and> list_all (\<lambda>w. one_state (self w))
       (worlds (\<lambda>b. Inr b) (\<lambda>s. Inr (JArr []))
          [CallPayload (Function 1), Deliver 0, CallPayload (Function 2)]
          (fresh \<lparr> priv_when = InvalidMoment, priv_tickers = [''AAPL''],
                   priv_payload = \<lparr> buff = Some ''abc'', decoded = None \<rparr> \<rparr>))"
proof -
  have h: "Data_new (\<lambda>s. InvalidMoment) toUpperCase (\<lambda>s. s)
      \<lparr> j_when = ''today'', j_tickers = Some [''aapl''], j_payload = ''abc'' \<rparr>
     = Inr \<lparr> priv_when = InvalidMoment, priv_tickers = [''AAPL''],
             priv_payload = \<lparr> buff = Some ''abc'', decoded = None \<rparr> \<rparr>"
    by code_simp
  have w: "map (\<lambda>w. (compressed (self w), is_decoded (self w)))
       (worlds (\<lambda>b. Inr b) (\<lambda>s. Inr (JArr []))
          [CallPayload (Function 1), Deliver 0, CallPayload (Function 2)]
          (fresh \<lparr> priv_when = InvalidMoment, priv_tickers = [''AAPL''],
                   priv_payload = \<lparr> buff = Some ''abc'', decoded = None \<rparr> \<rparr>))
     = [(True, False), (True, False), (False, True), (False, True)]"
    by (simp add: fresh_def Data_payload_def deliver_def gunzip_callback_def
        compressed_def is_decoded_def Let_def)
  from payload_state_invariant [OF h, of "\<lambda>b. Inr b" "\<lambda>s. Inr (JArr [])"
      "[CallPayload (Function 1), Deliver 0, CallPayload (Function 2)]"] h w
  show ?thesis by simp
qed

section \<open>Calling payload twice\<close>

text \<open>
  One call, zlib's answer, and a second call. When the decoded value is truthy the
  second call is answered from the decoded value and zlib is not called again.
\<close>

lemma run_payload_truthy:
  assumes "gunzip b = Inr out" and "JSON_parse (toString_ascii out) = Inr v" and "truthy v"
  shows "run gunzip JSON_parse [CallPayload (Function f), Deliver 0, CallPayload (Function g)]
           (fresh \<lparr> priv_when = t, priv_tickers = ts,
                    priv_payload = \<lparr> buff = Some b, decoded = None \<rparr> \<rparr>)
         = ([(None, [Gunzip b]),
             (None, [Callback f None (Some v)]),
             (None, [Callback g None (Some v)])],
            fresh \<lparr> priv_when = t, priv_tickers = ts,
                    priv_payload = \<lparr> buff = None, decoded = Some v \<rparr> \<rparr>)"
  using assms
  by (simp add: fresh_def Data_payload_def deliver_def gunzip_callback_def Let_def)

text \<open>
  When the decoded value is falsy (\<^verbatim>\<open>null\<close>, \<^verbatim>\<open>false\<close>, \<^verbatim>\<open>0\<close> or the empty
  string) the test \<^verbatim>\<open>!!this._payload.decoded\<close> of the second call fails, and the
  call ends in the TypeError branch.
\<close>

lemma run_payload_falsy:
  assumes "gunzip b = Inr out" and "JSON_parse (toString_ascii out) = Inr v" and "\<not> truthy v"
  shows "run gunzip JSON_parse [CallPayload (Function f), Deliver 0, CallPayload (Function g)]
           (fresh \<lparr> priv_when = t, priv_tickers = ts,
                    priv_payload = \<lparr> buff = Some b, decoded = None \<rparr> \<rparr>)
         = ([(None, [Gunzip b]),
             (None, [Callback f None (Some v)]),
             (None, [Callback g (Some (TypeError ''No payload buffer or decoded value?'')) None])],
            fresh \<lparr> priv_when = t, priv_tickers = ts,
                    priv_payload = \<lparr> buff = None, decoded = Some v \<rparr> \<rparr>)"
  using assms
  by (simp add: fresh_def Data_payload_def deliver_def gunzip_callback_def Let_def)

text \<open>
  Two calls before zlib has answered the first: both find the buffer, and zlib is called
  twice.
\<close>

lemma run_payload_back_to_back:
  assumes "gunzip b = Inr out" and "JSON_parse (toString_ascii out) = Inr v"
  shows "run gunzip JSON_parse
           [CallPayload (Function f), CallPayload (Function g), Deliver 0, Deliver 0]
           (fresh \<lparr> priv_when = t, priv_tickers = ts,
                    priv_payload = \<lparr> buff = Some b, decoded = None \<rparr> \<rparr>)
         = ([(None, [Gunzip b]),
             (None, [Gunzip b]),
             (None, [Callback f None (Some v)]),
             (None, [Callback g None (Some v)])],
            fresh \<lparr> priv_when = t, priv_tickers = ts,
                    priv_payload = \<lparr> buff = None, decoded = Some v \<rparr> \<rparr>)"
  using assms
  by (simp add: fresh_def Data_payload_def deliver_def gunzip_callback_def Let_def)

text \<open>
  Claim C1 says that two calls of \<^verbatim>\<open>payload\<close> give the callback the same decoded
  value both times, the second without decompressing again. On an envelope whose
  payload is the JSON text \<^verbatim>\<open>0\<close> (zlib answers with the bytes of \<^verbatim>\<open>0\<close>,
  \<^verbatim>\<open>JSON.parse\<close> with the number 0) the first callback receives 0, and the second
  callback receives the TypeError \<^verbatim>\<open>No payload buffer or decoded value?\<close> instead of
  the memoized 0, although the envelope holds the decoded value.
\<close>

theorem payload_twice_zero:
  "run (\<lambda>b. Inr ''0'') (\<lambda>s. Inr (JNum 0))
       [CallPayload (Function f), Deliver 0, CallPayload (Function g)]
       (fresh \<lparr> priv_when = t, priv_tickers = ts,
                priv_payload = \<lparr> buff = Some b, decoded = None \<rparr> \<rparr>)
     = ([(None, [Gunzip b]),
         (None, [Callback f None (Some (JNum 0))]),
         (None, [Callback g (Some (TypeError ''No payload buffer or decoded value?'')) None])],
        fresh \<lparr> priv_when = t, priv_tickers = ts,
                priv_payload = \<lparr> buff = None, decoded = Some (JNum 0) \<rparr> \<rparr>)"
  by (rule run_payload_falsy) simp_all

section \<open>Failures of decoding\<close>

text \<open>
  When zlib answers with an error, the callback receives it and the envelope keeps its
  buffer.
\<close>

lemma deliver_gunzip_error:
  assumes "gunzip b = Inl err"
  shows "run gunzip JSON_parse [CallPayload (Function f), Deliver 0]
           (fresh \<lparr> priv_when = t, priv_tickers = ts,
                    priv_payload = \<lparr> buff = Some b, decoded = None \<rparr> \<rparr>)
         = ([(None, [Gunzip b]), (None, [Callback f (Some err) None])],
            fresh \<lparr> priv_when = t, priv_tickers = ts,
                    priv_payload = \<lparr> buff = Some b, decoded = None \<rparr> \<rparr>)"
  using assms
  by (simp add: fresh_def Data_payload_def deliver_def gunzip_callback_def Let_def)

text \<open>
  When zlib answers with bytes that \<^verbatim>\<open>JSON.parse\<close> rejects, the exception leaves
  zlib's callback: \<^verbatim>\<open>next\<close> is not called, and the envelope keeps its buffer.
\<close>

lemma deliver_parse_error:
  assumes "gunzip b = Inr out" and "JSON_parse (toString_ascii out) = Inl e"
  shows "run gunzip JSON_parse [CallPayload (Function f), Deliver 0]
           (fresh \<lparr> priv_when = t, priv_tickers = ts,
                    priv_payload = \<lparr> buff = Some b, decoded = None \<rparr> \<rparr>)
         = ([(None, [Gunzip b]), (Some e, [])],
            fresh \<lparr> priv_when = t, priv_tickers = ts,
                    priv_payload = \<lparr> buff = Some b, decoded = None \<rparr> \<rparr>)"
  using assms
  by (simp add: fresh_def Data_payload_def deliver_def gunzip_callback_def Let_def)

text \<open>
  Claim C2 says that when decompression or JSON parsing fails, \<^verbatim>\<open>payload\<close> calls
  the callback with an error and the envelope does not become Decoded. On an envelope
  whose payload decompresses to the text \<^verbatim>\<open>{\<close>, which \<^verbatim>\<open>JSON.parse\<close> rejects
  with a SyntaxError, the callback \<open>f\<close> is never called: the SyntaxError is thrown out
  of zlib's callback. The envelope stays Compressed, with its buffer.
\<close>

theorem payload_parse_failure_skips_callback:
  "run (\<lambda>b. Inr ''{'') (\<lambda>s. Inl (LibError ''SyntaxError''))
       [CallPayload (Function f), Deliver 0]
       (fresh \<lparr> priv_when = t, priv_tickers = ts,
                priv_payload = \<lparr> buff = Some b, decoded = None \<rparr> \<rparr>)
     = ([(None, [Gunzip b]), (Some (LibError ''SyntaxError''), [])],
        fresh \<lparr> priv_when = t, priv_tickers = ts,
                priv_payload = \<lparr> buff = Some b, decoded = None \<rparr> \<rparr>)"
  by (rule deliver_parse_error) simp_all

section \<open>The constructor of Data\<close>

text \<open>
  The tickers of an envelope are the input tickers, each passed through
  \<^verbatim>\<open>_.upperCase\<close>, in the input's order and with its duplicates.
\<close>

lemma Data_tickers_map:
  "Data_new moment_of upperCase base64 j = Inr d \<Longrightarrow> j_tickers j = Some ts \<Longrightarrow>
     Data_tickers d = map upperCase ts"
  by (auto simp: Data_new_def Data_tickers_def Let_def)

lemma Data_tickers_nth:
  "Data_new moment_of upperCase base64 j = Inr d \<Longrightarrow> j_tickers j = Some ts \<Longrightarrow>
     length (Data_tickers d) = length ts \<and>
     (\<forall>i < length ts. Data_tickers d ! i = upperCase (ts ! i))"
  by (auto simp: Data_new_def Data_tickers_def Let_def)

text \<open>
  Claim C5 says that element \<open>i\<close> of \<^verbatim>\<open>tickers\<close> is the uppercased form of input
  ticker \<open>i\<close>. For the input \<^verbatim>\<open>["brk.b", "aapl", "brk.b"]\<close> the envelope's tickers
  are \<^verbatim>\<open>["BRK B", "AAPL", "BRK B"]\<close>: \<^verbatim>\<open>_.upperCase\<close> splits \<^verbatim>\<open>brk.b\<close> into
  the words \<^verbatim>\<open>brk\<close> and \<^verbatim>\<open>b\<close> and joins them with a space, where the uppercased
  form is \<^verbatim>\<open>BRK.B\<close>. Length, order and duplicates are the input's.
\<close>

theorem tickers_word_split:
  "map_sum id Data_tickers
     (Data_new moment_of lodash_upperCase base64
        \<lparr> j_when = t, j_tickers = Some [''brk.b'', ''aapl'', ''brk.b''], j_payload = p \<rparr>)
     = Inr [''BRK B'', ''AAPL'', ''BRK B'']
   \<and> map toUpperCase [''brk.b'', ''aapl'', ''brk.b''] = [''BRK.B'', ''AAPL'', ''BRK.B'']"
proof -
  have 1: "lodash_upperCase ''brk.b'' = ''BRK B''" by code_simp
  have 2: "lodash_upperCase ''aapl'' = ''AAPL''" by code_simp
  have 3: "toUpperCase ''brk.b'' = ''BRK.B''" by code_simp
  have 4: "toUpperCase ''aapl'' = ''AAPL''" by code_simp
  show ?thesis
    by (simp add: Data_new_def Data_tickers_def 1 2 3 4)
qed

text \<open>
  Claim C6 says that the constructor fails with a ValidationError when the timestamp
  does not parse or the payload is not valid base64. With the timestamp
  \<^verbatim>\<open>not a date\<close>, for which \<^verbatim>\<open>moment\<close> returns an invalid moment, and the
  payload \<^verbatim>\<open>%%%\<close>, which has no base64 character and for which \<^verbatim>\<open>new Buffer\<close>
  returns an empty buffer, the constructor returns an envelope.
\<close>

theorem Data_new_unvalidated_counterexample:
  "Data_new (\<lambda>s. InvalidMoment) toUpperCase (\<lambda>s. [])
     \<lparr> j_when = ''not a date'', j_tickers = Some [''aapl''], j_payload = ''%%%'' \<rparr>
   = Inr \<lparr> priv_when = InvalidMoment, priv_tickers = [''AAPL''],
           priv_payload = \<lparr> buff = Some [], decoded = None \<rparr> \<rparr>"
proof -
  have "toUpperCase ''aapl'' = ''AAPL''" by code_simp
  then show ?thesis by (simp add: Data_new_def)
qed

text \<open>
  Claim C6, amended. The constructor validates neither the timestamp nor the payload:
  for every timestamp string and every payload string, with an array of tickers it
  returns an envelope that holds what \<^verbatim>\<open>moment\<close> returns for the timestamp (an
  invalid moment when the string does not parse) and what the base64 decoder returns
  for the payload. No ValidationError is raised.
\<close>

theorem Data_new_unvalidated:
  "Data_new moment_of upperCase base64 \<lparr> j_when = t, j_tickers = Some ts, j_payload = p \<rparr>
     = Inr \<lparr> priv_when = moment_of t, priv_tickers = map upperCase ts,
             priv_payload = \<lparr> buff = Some (base64 p), decoded = None \<rparr> \<rparr>
   \<and> Data_when \<lparr> priv_when = moment_of t, priv_tickers = map upperCase ts,
             priv_payload = \<lparr> buff = Some (base64 p), decoded = None \<rparr> \<rparr> = moment_of t"
  by (simp add: Data_new_def Data_when_def Let_def)

section \<open>Commands without a secret\<close>

text \<open>Without a secret and without a callback the three commands throw and do nothing else.\<close>

lemma secret_check_missing_throw:
  "\<not> isFunction nxt \<Longrightarrow>
   secret_check None nxt =
     (Some (Error ''Secret is not specified, server requests are unavailable.''), [])"
  by (cases nxt) (simp_all add: secret_check_def)

lemma no_secret_no_callback_throws:
  assumes "\<not> isFunction nxt" and "secret c = None"
  shows "Client_start nxt c =
           (Some (Error ''Secret is not specified, server requests are unavailable.''), [], c)
       \<and> Client_stop nxt c =
           (Some (Error ''Secret is not specified, server requests are unavailable.''), [], c)
       \<and> Client_restart nxt when c =
           (Some (Error ''Secret is not specified, server requests are unavailable.''), [], c)"
  using assms
  by (simp add: Client_start_def Client_stop_def Client_restart_def secret_check_missing_throw)

text \<open>
  Claim C4 says that without a secret \<^verbatim>\<open>start\<close>, \<^verbatim>\<open>stop\<close> and \<^verbatim>\<open>restart\<close>
  call the callback with the error and make no network call. On a client without a
  secret, called with a callback \<open>f\<close>, each of the three calls \<open>f\<close> with the error
  and then goes on to \<^verbatim>\<open>request.get\<close>, with an empty token: one outbound request
  each.
\<close>

theorem no_secret_callback_still_requests:
  "fst (snd (Client_start (Function f)
       \<lparr> servUrl = \<lparr> origin = og, pathname = [], query = None, search = [], hash = [] \<rparr>,
         local_addr = la, secret = None, timeout = tmo, priv_handlers = hs \<rparr>))
   = [Callback f (Some (Error ''Secret is not specified, server requests are unavailable.'')) None,
      Request GET (og @ ''/serv/start?token='') None tmo]
  \<and> fst (snd (Client_stop (Function f)
       \<lparr> servUrl = \<lparr> origin = og, pathname = [], query = None, search = [], hash = [] \<rparr>,
         local_addr = la, secret = None, timeout = tmo, priv_handlers = hs \<rparr>))
   = [Callback f (Some (Error ''Secret is not specified, server requests are unavailable.'')) None,
      Request GET (og @ ''/serv/stop?token='') None tmo]
  \<and> fst (snd (Client_restart (Function f) None
       \<lparr> servUrl = \<lparr> origin = og, pathname = [], query = None, search = [], hash = [] \<rparr>,
         local_addr = la, secret = None, timeout = tmo, priv_handlers = hs \<rparr>))
   = [Callback f (Some (Error ''Secret is not specified, server requests are unavailable.'')) None,
      Request GET (og @ ''/serv/reset?token=&date='') None tmo]
  \<and> length (filter is_request (fst (snd (Client_start (Function f)
       \<lparr> servUrl = \<lparr> origin = og, pathname = [], query = None, search = [], hash = [] \<rparr>,
         local_addr = la, secret = None, timeout = tmo, priv_handlers = hs \<rparr>)))) = 1"
  by (simp add: Client_start_def Client_stop_def Client_restart_def secret_check_def remoteUrl_def
      url_format_def querystring_stringify_def escape_pathname_def qs_escape_def
      unreserved_def is_letter_def is_lower_def is_upper_def is_digit_def Let_def)

text \<open>
  When the response arrives, the callback of the request calls \<open>f\<close> again; a status
  other than 200 becomes an error whose message holds the status and the body.
\<close>

lemma command_callback_bad_status:
  "command_callback (Response 403 ''forbidden'') (Function f)
     = (None, [Callback f (Some (Error (''Bad status code: 403'' @ [CHR 0x0A]
                                        @ ''Error: forbidden''))) None])
   \<and> command_callback (Response 200 rbody) (Function f) = (None, [Callback f None None])"
proof -
  have "number_toString 403 = ''403''" by code_simp
  then show ?thesis by (simp add: command_callback_def)
qed

section \<open>Registration\<close>

text \<open>
  \<^verbatim>\<open>disconnect\<close> sends a DELETE to the URL and with the body of \<^verbatim>\<open>connect\<close>'s
  PUT, and both hand a transport error to the callback.
\<close>

lemma disconnect_request:
  "fst (Client_disconnect c) =
     [Request DELETE (fst (remoteUrl ''/register'' None c)) (Some (register_body c)) (timeout c)]
   \<and> fst (Client_connect c) =
     [Request PUT (fst (remoteUrl ''/register'' None c)) (Some (register_body c)) (timeout c)]"
  by (simp add: Client_disconnect_def Client_connect_def remoteUrl_def register_body_def Let_def)

lemma register_url:
  "fst (remoteUrl ''/register'' None
     (c\<lparr> servUrl := \<lparr> origin = og, pathname = pn, query = q, search = [], hash = [] \<rparr> \<rparr>))
   = og @ ''/register''"
  by (simp add: remoteUrl_def url_format_def escape_pathname_def Let_def)

lemma disconnect_transport_error:
  "disconnect_callback (TransportError e) (Function f) = (None, [Callback f (Some e) None])
   \<and> connect_callback inspect uri (TransportError e) (Function f)
       = (None, [Callback f (Some e) None])"
  by (simp add: disconnect_callback_def connect_callback_def)

text \<open>
  Claim C7 says that \<^verbatim>\<open>disconnect\<close> obeys the error contract of \<^verbatim>\<open>connect\<close> and
  fails when the response status is not 200. On a response with status 500
  \<^verbatim>\<open>disconnect\<close> calls its callback with no error (and throws nothing when there is
  no callback), where \<^verbatim>\<open>connect\<close> calls it with the error
  \<^verbatim>\<open>Bad status code: 500\<close>.
\<close>

theorem disconnect_ignores_status:
  "disconnect_callback (Response 500 rbody) (Function f) = (None, [Callback f None None])
   \<and> connect_callback inspect uri (Response 500 rbody) (Function f)
      = (None, [Callback f (Some (Error (''Bad status code: 500'' @ [CHR 0x0A] @ ''Error: ''
                                        @ uri @ '', '' @ inspect rbody))) None])
   \<and> disconnect_callback (Response 500 rbody) Undefined = (None, [])"
proof -
  have "number_toString 500 = ''500''" by code_simp
  then show ?thesis by (simp add: disconnect_callback_def connect_callback_def)
qed

section \<open>The date of restart\<close>

text \<open>
  With a moment, \<^verbatim>\<open>restart\<close> puts its formatted date into the query; the moment of
  2024-03-05 09:30:00 gives the \<^verbatim>\<open>date\<close> parameter \<^verbatim>\<open>2024-03-05T09:30:00\<close>, which
  the URL carries percent-encoded.
\<close>

lemma restart_with_moment:
  "fst (snd (Client_restart (Function f) (Some (Moment 2024 3 5 9 30 0))
       \<lparr> servUrl = \<lparr> origin = og, pathname = [], query = None, search = [], hash = [] \<rparr>,
         local_addr = la, secret = Some ''s3cret'', timeout = tmo, priv_handlers = hs \<rparr>))
   = [Request GET (og @ ''/serv/reset?token=s3cret&date=2024-03-05T09%3A30%3A00'') None tmo]
   \<and> query (servUrl (snd (snd (Client_restart (Function f) (Some (Moment 2024 3 5 9 30 0))
       \<lparr> servUrl = \<lparr> origin = og, pathname = [], query = None, search = [], hash = [] \<rparr>,
         local_addr = la, secret = Some ''s3cret'', timeout = tmo, priv_handlers = hs \<rparr>))))
   = Some [(''token'', Some ''s3cret''), (''date'', Some ''2024-03-05T09:30:00'')]"
proof -
  have 1: "moment_format (Moment 2024 3 5 9 30 0) = ''2024-03-05T09:30:00''" by code_simp
  have 2: "qs_escape ''2024-03-05T09:30:00'' = ''2024-03-05T09%3A30%3A00''" by code_simp
  have 3: "qs_escape ''s3cret'' = ''s3cret''" by code_simp
  have 4: "qs_escape ''token'' = ''token''" by code_simp
  have 5: "qs_escape ''date'' = ''date''" by code_simp
  show ?thesis
    by (simp add: Client_restart_def secret_check_def remoteUrl_def url_format_def
      querystring_stringify_def escape_pathname_def 1 2 3 4 5 Let_def del: moment_format.simps)
qed

text \<open>The token \<^verbatim>\<open>hh\<close> is the twelve hour clock: half past three in the afternoon.\<close>

lemma restart_afternoon:
  "moment_format (Moment 2024 3 5 15 30 0) = ''2024-03-05T03:30:00''"
  by code_simp

text \<open>
  Claim C8 says that without \<^verbatim>\<open>when\<close> the \<^verbatim>\<open>date\<close> parameter is left out of the
  request URL. On a client with the secret \<^verbatim>\<open>s3cret\<close>, \<^verbatim>\<open>restart\<close> without
  \<^verbatim>\<open>when\<close> requests \<^verbatim>\<open>/serv/reset?token=s3cret&date=\<close>: the key \<^verbatim>\<open>date\<close> is in
  the query object with the value \<^verbatim>\<open>undefined\<close>, and \<^verbatim>\<open>querystring.stringify\<close>
  writes it with an empty value.
\<close>

theorem restart_without_when_sends_empty_date:
  "fst (snd (Client_restart (Function f) None
       \<lparr> servUrl = \<lparr> origin = og, pathname = [], query = None, search = [], hash = [] \<rparr>,
         local_addr = la, secret = Some ''s3cret'', timeout = tmo, priv_handlers = hs \<rparr>))
   = [Request GET (og @ ''/serv/reset?token=s3cret&date='') None tmo]"
proof -
  have 3: "qs_escape ''s3cret'' = ''s3cret''" by code_simp
  have 4: "qs_escape ''token'' = ''token''" by code_simp
  have 5: "qs_escape ''date'' = ''date''" by code_simp
  have 6: "qs_escape [] = []" by code_simp
  show ?thesis
    by (simp add: Client_restart_def secret_check_def remoteUrl_def url_format_def
      querystring_stringify_def escape_pathname_def 3 4 5 6 Let_def)
qed

section \<open>The inbound routes\<close>

text \<open>
  Claim C9. A POST to \<^verbatim>\<open>/signal\<close> or \<^verbatim>\<open>/data\<close> sends the response
  \<^verbatim>\<open>{"success": true}\<close> with status 200 first and calls the handler
  (\<^verbatim>\<open>status\<close> or \<^verbatim>\<open>data\<close>) after it; it sends exactly this one response; and the
  events of the route, the response among them, are the same whatever the handler does
  (returns or throws). For \<^verbatim>\<open>/data\<close> the handler is called when the constructor of
  the envelope returns.
\<close>

theorem inbound_ack_before_handler:
  "snd (post_signal behave c sreq) =
     [Respond 200 (JObj [(''success'', JBool True)]),
      StatusHandler (h_status (priv_handlers c)) (body sreq) (ip sreq)]
   \<and> snd (post_data moment_of upperCase base64 behave c dreq) =
     Respond 200 (JObj [(''success'', JBool True)]) #
       (case Data_new moment_of upperCase base64 (body dreq) of
          Inl err \<Rightarrow> []
        | Inr d \<Rightarrow> [DataHandler (h_data (priv_handlers c)) d (ip dreq)])
   \<and> filter is_respond (snd (post_signal behave c sreq))
       = [Respond 200 (JObj [(''success'', JBool True)])]
   \<and> filter is_respond (snd (post_data moment_of upperCase base64 behave c dreq))
       = [Respond 200 (JObj [(''success'', JBool True)])]
   \<and> snd (post_signal behave c sreq) = snd (post_signal behave' c sreq)
   \<and> snd (post_data moment_of upperCase base64 behave c dreq)
       = snd (post_data moment_of upperCase base64 behave' c dreq)"
  by (simp add: post_signal_def post_data_def success_body_def Let_def split: sum.splits)

section \<open>Replacing a handler\<close>

text \<open>
  Claim C10. When \<^verbatim>\<open>on(event, handler)\<close> is called with an event that is not a
  string or a handler that is not a function, it throws the assertion error, leaves the
  client (and so every handler) as it was and calls no handler; and whenever
  \<^verbatim>\<open>on\<close> calls a handler (the error handler, for an unknown event), the event is a
  string and the handler a function.
\<close>

theorem on_asserts_arguments:
  "(\<not> (isString event \<and> isFunction handler) \<longrightarrow>
      Client_on behave event handler c = (Some AssertionError, [], c))
   \<and> (filter is_handler_call (fst (snd (Client_on behave event handler c))) \<noteq> [] \<longrightarrow>
        isString event \<and> isFunction handler)"
  by (induction behave event handler c rule: Client_on.induct) simp_all

theorem on_asserts_arguments_witness:
  "\<not> (isString (Json (JNum 42)) \<and> isFunction (Function 7))
   \<and> Client_on (\<lambda>h. None) (Json (JNum 42)) (Function 7)
        \<lparr> servUrl = \<lparr> origin = ''http://stock-server'', pathname = [], query = None,
                       search = [], hash = [] \<rparr>,
          local_addr = [], secret = None, timeout = Some 15000,
          priv_handlers = \<lparr> h_error = 0, h_status = 1, h_data = 2 \<rparr> \<rparr>
      = (Some AssertionError, [],
         \<lparr> servUrl = \<lparr> origin = ''http://stock-server'', pathname = [], query = None,
                       search = [], hash = [] \<rparr>,
          local_addr = [], secret = None, timeout = Some 15000,
          priv_handlers = \<lparr> h_error = 0, h_status = 1, h_data = 2 \<rparr> \<rparr>)
   \<and> fst (snd (Client_on (\<lambda>h. None) (Json (JStr ''bogus'')) (Function 7)
        \<lparr> servUrl = \<lparr> origin = ''http://stock-server'', pathname = [], query = None,
                       search = [], hash = [] \<rparr>,
          local_addr = [], secret = None, timeout = Some 15000,
          priv_handlers = \<lparr> h_error = 0, h_status = 1, h_data = 2 \<rparr> \<rparr>))
      = [ErrorHandler 0 (Error ''Unknown event: bogus'')]
   \<and> isString (Json (JStr ''bogus'')) \<and> isFunction (Function 7)"
  using on_asserts_arguments [of "Json (JNum 42)" "Function 7" "\<lambda>h. None"
        "\<lparr> servUrl = \<lparr> origin = ''http://stock-server'', pathname = [], query = None,
                       search = [], hash = [] \<rparr>,
          local_addr = [], secret = None, timeout = Some 15000,
          priv_handlers = \<lparr> h_error = 0, h_status = 1, h_data = 2 \<rparr> \<rparr>"]
    on_asserts_arguments [of "Json (JStr ''bogus'')" "Function 7" "\<lambda>h. None"
        "\<lparr> servUrl = \<lparr> origin = ''http://stock-server'', pathname = [], query = None,
                       search = [], hash = [] \<rparr>,
          local_addr = [], secret = None, timeout = Some 15000,
          priv_handlers = \<lparr> h_error = 0, h_status = 1, h_data = 2 \<rparr> \<rparr>"]
  by simp

end
